theory Spec2Isabelle
  imports Complex_Main
begin

section \<open>Python values used by Voltix\<close>

text \<open>
  A Python \<^verbatim>\<open>str\<close> is a sequence of Unicode code points and \<^verbatim>\<open>len\<close> counts code
  points. The gauge is drawn with box-drawing characters outside ASCII, so a string is
  modelled as the list of its code points; \<open>ascii\<close> embeds an ASCII literal.
\<close>

type_synonym pystr = "nat list"

definition ord :: "char \<Rightarrow> nat" where
  "ord c = of_char c"

definition ascii :: "string \<Rightarrow> pystr" where
  "ascii s = map ord s"

text \<open>The exceptions that can leave the modelled functions.\<close>

datatype error = OverflowError | IndexError | OSError | TypeError | ValueError

text \<open>\<^verbatim>\<open>str(n)\<close> and \<^verbatim>\<open>"%d" % n\<close> for an integer: decimal digits, a minus sign when negative.\<close>

function str_nat :: "nat \<Rightarrow> pystr" where
  "str_nat n = (if n < 10 then [48 + n] else str_nat (n div 10) @ [48 + n mod 10])"
  by pat_completeness auto
termination
  by (relation "measure id") auto

declare str_nat.simps [simp del]

definition str_int :: "int \<Rightarrow> pystr" where
  "str_int n = (if n < 0 then ord CHR ''-'' # str_nat (nat (- n)) else str_nat (nat n))"

text \<open>\<^verbatim>\<open>"%0wd" % n\<close>: zero padding to width \<open>w\<close>, the zeros after the sign.\<close>

definition zpad :: "nat \<Rightarrow> pystr \<Rightarrow> pystr" where
  "zpad w s = replicate (w - length s) (ord CHR ''0'') @ s"

definition fmt_0d :: "nat \<Rightarrow> int \<Rightarrow> pystr" where
  "fmt_0d w n =
     (if n < 0 then ord CHR ''-'' # zpad (w - 1) (str_nat (nat (- n)))
      else zpad w (str_nat (nat n)))"

text \<open>
  \<^verbatim>\<open>s.lower()\<close>. ASCII capitals map to their small letters. Two code points outside
  ASCII have a lower-case form that contains an ASCII letter: U+0130 (to \<open>i\<close> followed by
  U+0307) and U+212A, the Kelvin sign (to \<open>k\<close>). Every other code point outside ASCII is
  mapped by Python to code points outside ASCII again; the model leaves those unchanged,
  which no comparison with an ASCII prefix can observe.
\<close>

definition lower_cp :: "nat \<Rightarrow> pystr" where
  "lower_cp c =
     (if 65 \<le> c \<and> c \<le> 90 then [c + 32]
      else if c = 304 then [105, 775]
      else if c = 8490 then [107]
      else [c])"

definition lower :: "pystr \<Rightarrow> pystr" where
  "lower s = concat (map lower_cp s)"

definition startswith :: "pystr \<Rightarrow> pystr \<Rightarrow> bool" where
  "startswith s p = (take (length p) s = p)"

text \<open>\<^verbatim>\<open>s.split(".")[0]\<close>: the part of \<open>s\<close> before its first full stop, all of \<open>s\<close> without one.\<close>

definition split_dot_0 :: "pystr \<Rightarrow> pystr" where
  "split_dot_0 s = takeWhile (\<lambda>c. c \<noteq> ord CHR ''.'') s"

subsection \<open>\<^verbatim>\<open>datetime.timedelta\<close>\<close>

text \<open>
  \<^verbatim>\<open>timedelta(seconds=secs)\<close> normalises to days, seconds in \<open>[0, 86400)\<close> and
  microseconds, and raises \<^verbatim>\<open>OverflowError\<close> when the days exceed 999999999 in magnitude.
  \<^verbatim>\<open>str\<close> of it is
  \<^verbatim>\<open>
    mm, ss = divmod(self._seconds, 60)
    hh, mm = divmod(mm, 60)
    s = "%d:%02d:%02d" % (hh, mm, ss)
    if self._days:
        def plural(n): return n, abs(n) != 1 and "s" or ""
        s = ("%d day%s, " % plural(self._days)) + s
    if self._microseconds:
        s = s + ".%06d" % self._microseconds
    return s
  \<close>
\<close>

record timedelta =
  days :: int
  seconds :: int
  microseconds :: int

definition timedelta_seconds :: "int \<Rightarrow> error + timedelta" where
  "timedelta_seconds secs =
     (let d = secs div 86400; s = secs mod 86400
      in if \<bar>d\<bar> > 999999999 then Inl OverflowError
         else Inr \<lparr>days = d, seconds = s, microseconds = 0\<rparr>)"

definition timedelta_str :: "timedelta \<Rightarrow> pystr" where
  "timedelta_str td =
     (let mm = seconds td div 60; ss = seconds td mod 60;
          hh = mm div 60; mm = mm mod 60;
          s = str_int hh @ ascii '':'' @ fmt_0d 2 mm @ ascii '':'' @ fmt_0d 2 ss;
          s = (if days td \<noteq> 0
               then str_int (days td) @ ascii '' day''
                      @ (if \<bar>days td\<bar> \<noteq> 1 then ascii ''s'' else []) @ ascii '', '' @ s
               else s);
          s = (if microseconds td \<noteq> 0 then s @ ascii ''.'' @ fmt_0d 6 (microseconds td) else s)
      in s)"

section \<open>Utility functions\<close>

text \<open>
  \<^verbatim>\<open>
  def format_time(secs: int | None, status: str | None = None) -> str:
      if secs is None or secs < 0:
          if status and status.lower().startswith("charg"):
              return "Charging..."
          return "Unknown"
      return str(timedelta(seconds=secs)).split(".")[0]
  \<close>
  \<^verbatim>\<open>if status\<close> is false for \<^verbatim>\<open>None\<close> and for the empty string.
\<close>

definition format_time :: "int option \<Rightarrow> pystr option \<Rightarrow> error + pystr" where
  "format_time secs status =
     (if (case secs of None \<Rightarrow> True | Some n \<Rightarrow> n < 0) then
        (if (case status of None \<Rightarrow> False
             | Some s \<Rightarrow> s \<noteq> [] \<and> startswith (lower s) (ascii ''charg''))
         then Inr (ascii ''Charging...'')
         else Inr (ascii ''Unknown''))
      else (case timedelta_seconds (the secs) of
              Inl e \<Rightarrow> Inl e
            | Inr td \<Rightarrow> Inr (split_dot_0 (timedelta_str td))))"

section \<open>Rendering\<close>

text \<open>
  \<^verbatim>\<open>
  def color_for_percent(percent: int) -> str:
      if percent < 20: return "red"
      elif percent < 60: return "yellow"
      else: return "green"
  \<close>
\<close>

definition color_for_percent :: "int \<Rightarrow> pystr" where
  "color_for_percent percent =
     (if percent < 20 then ascii ''red''
      else if percent < 60 then ascii ''yellow''
      else ascii ''green'')"

subsection \<open>String and list operations of the renderer\<close>

text \<open>\<^verbatim>\<open>s * n\<close> for a string and an integer: \<open>n\<close> copies, none when \<open>n\<close> is negative.\<close>

definition str_mul :: "pystr \<Rightarrow> int \<Rightarrow> pystr" where
  "str_mul s n = concat (replicate (nat n) s)"

text \<open>
  \<^verbatim>\<open>s.center(w)\<close> pads with spaces; CPython puts \<^verbatim>\<open>marg / 2 + (marg & w & 1)\<close> of the
  \<^verbatim>\<open>marg = w - len(s)\<close> spaces on the left.
\<close>

definition center :: "pystr \<Rightarrow> int \<Rightarrow> pystr" where
  "center s w =
     (if w \<le> int (length s) then s
      else (let marg = nat w - length s;
                left = marg div 2 + (if odd marg \<and> odd w then 1 else 0)
            in replicate left (ord CHR '' '') @ s @ replicate (marg - left) (ord CHR '' '')))"

text \<open>
  \<^verbatim>\<open>int(a / b)\<close> for integers: \<^verbatim>\<open>/\<close> is true division, giving the float nearest to the
  quotient, and \<^verbatim>\<open>int\<close> truncates toward zero. While \<open>\<bar>a\<bar> < 2 ^ 53\<close> and \<open>b = 100\<close> a
  quotient that is not an integer is at least \<open>1 / 100\<close> away from the integers and the
  rounding error of the float is below that, so the result is the exact quotient truncated
  toward zero, which is what the model computes. The theorems on \<open>fill_cols\<close> for
  arbitrary percentages carry that bound.
\<close>

definition int_truediv :: "int \<Rightarrow> int \<Rightarrow> int" where
  "int_truediv a b = sgn a * sgn b * (\<bar>a\<bar> div \<bar>b\<bar>)"

text \<open>
  \<^verbatim>\<open>xs[i] = v\<close> on a list: a negative index counts from the end, an index out of range
  raises \<^verbatim>\<open>IndexError\<close>.
\<close>

definition list_setitem :: "'a list \<Rightarrow> int \<Rightarrow> 'a \<Rightarrow> error + 'a list" where
  "list_setitem xs i v =
     (let n = int (length xs); j = (if i < 0 then i + n else i)
      in if 0 \<le> j \<and> j < n then Inr (xs[nat j := v]) else Inl IndexError)"

text \<open>
  \<^verbatim>\<open>
  def render_battery(percent: int, status: str, secs_left: int | None):
      width = 28
      height = 9
      fill_cols = int((percent * width) / 100)
      full_block = "<U+2588>"
      cap = " " * ((width - (width - width // 3)) // 2) + "_" * (width - width // 3)
      lines = [cap.center(width + 2), "<U+256D>" + "<U+2500>" * width + "<U+256E>"]
      for _ in range(height):
          fill = full_block * fill_cols + " " * (width - fill_cols)
          lines.append(f"<U+2502>{fill}<U+2502>")
      lines.append("<U+2570>" + "<U+2500>" * width + "<U+256F>")
  \<close>
  (the characters outside ASCII are written here as \<^verbatim>\<open><U+2588>\<close>, by their code points).
\<close>

definition width :: int where
  "width = 28"

definition height :: int where
  "height = 9"

definition full_block :: pystr where
  "full_block = [0x2588]"

definition fill_cols :: "int \<Rightarrow> int" where
  "fill_cols percent = int_truediv (percent * width) 100"

definition cap :: pystr where
  "cap = str_mul (ascii '' '') ((width - (width - width div 3)) div 2)
           @ str_mul (ascii ''_'') (width - width div 3)"

definition interior_row :: "int \<Rightarrow> pystr" where
  "interior_row percent =
     (let fill = str_mul full_block (fill_cols percent)
                   @ str_mul (ascii '' '') (width - fill_cols percent)
      in [0x2502] @ fill @ [0x2502])"

definition box_lines :: "int \<Rightarrow> pystr list" where
  "box_lines percent =
     [center cap (width + 2), [0x256D] @ str_mul [0x2500] width @ [0x256E]]
       @ replicate (nat height) (interior_row percent)
       @ [[0x2570] @ str_mul [0x2500] width @ [0x256F]]"

text \<open>
  \<^verbatim>\<open>
      perc_text = f"{percent}%"
      mid = 2 + height // 2
      row = list(lines[mid])
      start = 1 + (width - len(perc_text)) // 2
      for i, ch in enumerate(perc_text):
          row[start + i] = ch
      lines[mid] = "".join(row)
  \<close>
  \<open>overlay row k cs\<close> is the loop, \<open>k\<close> being \<^verbatim>\<open>start + i\<close>. The list \<^verbatim>\<open>lines\<close> has
  \<open>2 + height + 1\<close> entries, so \<^verbatim>\<open>lines[mid]\<close> is always in range.
\<close>

definition perc_text :: "int \<Rightarrow> pystr" where
  "perc_text percent = str_int percent @ ascii ''%''"

definition mid :: int where
  "mid = 2 + height div 2"

definition start :: "int \<Rightarrow> int" where
  "start percent = 1 + (width - int (length (perc_text percent))) div 2"

fun overlay :: "pystr \<Rightarrow> int \<Rightarrow> pystr \<Rightarrow> error + pystr" where
  "overlay row k [] = Inr row"
| "overlay row k (ch # cs) =
     (case list_setitem row k ch of
        Inl e \<Rightarrow> Inl e
      | Inr row' \<Rightarrow> overlay row' (k + 1) cs)"

definition gauge_lines :: "int \<Rightarrow> error + pystr list" where
  "gauge_lines percent =
     (let lines = box_lines percent
      in case overlay (lines ! nat mid) (start percent) (perc_text percent) of
           Inl e \<Rightarrow> Inl e
         | Inr row \<Rightarrow> Inr (lines[nat mid := row]))"

text \<open>
  \<^verbatim>\<open>
      info = [f"Status : {status}", f"Charge : {percent}%",
              f"Time   : {format_time(secs_left, status)}"]
      pad = "   "
      combined = [l + pad + info[i] if i < len(info) else l for i, l in enumerate(lines)]
      color = color_for_percent(percent)
      block = "\n".join(combined)
      console.print(Text(center_text_block(block), style=color))
  \<close>
  The model returns the rows \<^verbatim>\<open>combined\<close> and the colour; joining them, centring the
  block in the terminal and printing it are the terminal's side of the program.
\<close>

definition info_lines :: "int \<Rightarrow> pystr \<Rightarrow> pystr \<Rightarrow> pystr list" where
  "info_lines percent status time =
     [ascii ''Status : '' @ status,
      ascii ''Charge : '' @ str_int percent @ ascii ''%'',
      ascii ''Time   : '' @ time]"

definition combine :: "pystr list \<Rightarrow> pystr list \<Rightarrow> pystr list" where
  "combine lines info =
     map (\<lambda>(i, l). if i < length info then l @ ascii ''   '' @ info ! i else l)
       (enumerate 0 lines)"

record rendered =
  combined :: "pystr list"
  color :: pystr

definition render_battery :: "int \<Rightarrow> pystr \<Rightarrow> int option \<Rightarrow> error + rendered" where
  "render_battery percent status secs_left =
     (case gauge_lines percent of
        Inl e \<Rightarrow> Inl e
      | Inr lines \<Rightarrow>
          (case format_time secs_left (Some status) of
             Inl e \<Rightarrow> Inl e
           | Inr time \<Rightarrow>
               Inr \<lparr>combined = combine lines (info_lines percent status time),
                    color = color_for_percent percent\<rparr>))"

section \<open>Battery sources\<close>

text \<open>
  A reading is the dictionary \<^verbatim>\<open>info\<close> with the keys \<^verbatim>\<open>"percent"\<close>, \<^verbatim>\<open>"status"\<close> and
  \<^verbatim>\<open>"secs_left"\<close>: a field is \<open>None\<close> when its key is missing. The value stored under
  \<^verbatim>\<open>"secs_left"\<close> may itself be Python's \<^verbatim>\<open>None\<close>, hence the nested option. A dictionary
  is true in a condition when it has at least one key.
\<close>

record reading =
  info_percent :: "int option"
  info_status :: "pystr option"
  info_secs_left :: "int option option"

definition empty_reading :: reading where
  "empty_reading = \<lparr>info_percent = None, info_status = None, info_secs_left = None\<rparr>"

definition truthy :: "reading option \<Rightarrow> bool" where
  "truthy r =
     (case r of None \<Rightarrow> False
      | Some d \<Rightarrow> info_percent d \<noteq> None \<or> info_status d \<noteq> None \<or> info_secs_left d \<noteq> None)"

text \<open>
  What \<^verbatim>\<open>psutil\<close> offers: the import fails, or \<^verbatim>\<open>psutil.sensors_battery()\<close> returns
  \<^verbatim>\<open>None\<close> or a tuple \<^verbatim>\<open>sbattery(percent, secsleft, power_plugged)\<close>. The percentage is a
  float or an integer, modelled by its rational value; \<^verbatim>\<open>power_plugged\<close> is a boolean
  or \<^verbatim>\<open>None\<close>; \<^verbatim>\<open>secsleft\<close> is a number of seconds or one of the library's constants
  \<^verbatim>\<open>POWER_TIME_UNKNOWN = -1\<close> and \<^verbatim>\<open>POWER_TIME_UNLIMITED = -2\<close>.
\<close>

record sbattery =
  b_percent :: rat
  b_secsleft :: "int option"
  b_power_plugged :: "bool option"

datatype psutil_module = NotInstalled | Installed "sbattery option"

definition POWER_TIME_UNKNOWN :: int where
  "POWER_TIME_UNKNOWN = - 1"

definition POWER_TIME_UNLIMITED :: int where
  "POWER_TIME_UNLIMITED = - 2"

text \<open>\<^verbatim>\<open>round(x)\<close> with one argument: the nearest integer, a tie going to the even one.\<close>

definition py_round :: "rat \<Rightarrow> int" where
  "py_round x =
     (let f = \<lfloor>x\<rfloor>; r = x - of_int f
      in if r < 1 / 2 then f
         else if 1 / 2 < r then f + 1
         else if even f then f else f + 1)"

text \<open>
  The filesystem below \<^verbatim>\<open>/sys/class/power_supply\<close>: the entries of the directory in
  the order \<^verbatim>\<open>os.listdir\<close> gives them, each with the state of its two attribute files.
  \<open>Content s\<close> is a file whose \<^verbatim>\<open>f.read().strip()\<close> is \<open>s\<close>; \<open>Unreadable\<close> is a file
  that exists and whose opening or reading raises.
\<close>

datatype attr = Absent | Unreadable | Content pystr

record device =
  dev_name :: pystr
  dev_capacity :: attr
  dev_status :: attr

text \<open>
  The directory itself: it is missing (\<^verbatim>\<open>os.path.isdir\<close> is false), or it is a
  directory that \<^verbatim>\<open>os.listdir\<close> cannot read and raises on (a \<^verbatim>\<open>PermissionError\<close>, which is
  an \<^verbatim>\<open>OSError\<close>), or it lists its entries.
\<close>

datatype directory = NoDirectory | Unlistable | Listing "device list"

text \<open>
  The world the command runs in. \<open>consulted\<close> is not part of the program: it records
  each call of a source, in order, the way a counting test double would.
\<close>

datatype source = Psutil | Sysfs

record world =
  psutil :: psutil_module
  power_supply :: directory
  consulted :: "source list"

text \<open>
  \<^verbatim>\<open>
  def get_psutil_battery():
      try:
          import psutil
      except ImportError:
          return None
      b = psutil.sensors_battery()
      if not b:
          return None
      return {
          "percent": int(round(b.percent)),
          "status": "Charging" if b.power_plugged else "Discharging",
          "secs_left": None if b.secsleft in (-1, None) else int(b.secsleft),
      }
  \<close>
  A tuple of three fields is never false, so \<^verbatim>\<open>not b\<close> holds for \<^verbatim>\<open>None\<close> only.
\<close>

definition psutil_reading :: "sbattery \<Rightarrow> reading" where
  "psutil_reading b =
     \<lparr>info_percent = Some (py_round (b_percent b)),
      info_status = Some (if b_power_plugged b = Some True then ascii ''Charging''
                          else ascii ''Discharging''),
      info_secs_left = Some (if b_secsleft b = Some (- 1) \<or> b_secsleft b = None then None
                             else b_secsleft b)\<rparr>"

definition get_psutil_battery :: "world \<Rightarrow> reading option \<times> world" where
  "get_psutil_battery w =
     (let w' = w\<lparr>consulted := consulted w @ [Psutil]\<rparr>
      in case psutil w of
           NotInstalled \<Rightarrow> (None, w')
         | Installed None \<Rightarrow> (None, w')
         | Installed (Some b) \<Rightarrow> (Some (psutil_reading b), w'))"

text \<open>
  \<^verbatim>\<open>
  def get_sys_battery():
      base = "/sys/class/power_supply"
      if not os.path.isdir(base):
          return None
      for name in os.listdir(base):
          path = os.path.join(base, name)
          if name.lower().startswith("bat") or os.path.exists(os.path.join(path, "capacity")):
              try:
                  def readf(fname):
                      p = os.path.join(path, fname)
                      if os.path.exists(p):
                          with open(p) as f:
                              return f.read().strip()
                      return None
                  cap = readf("capacity")
                  status = readf("status") or "Unknown"
                  info = {"percent": int(cap), "status": status}
                  return info
              except Exception:
                  continue
      return None
  \<close>
  \<^verbatim>\<open>int(cap)\<close> raises \<^verbatim>\<open>TypeError\<close> on \<^verbatim>\<open>None\<close> and \<^verbatim>\<open>ValueError\<close> on a string that is
  not an integer literal. Which strings are (Python accepts a sign, underscores and every
  Unicode decimal digit) is left open: the parser is the parameter \<open>py_int\<close>, with \<open>None\<close>
  for \<^verbatim>\<open>ValueError\<close>. Every exception raised for a device is caught and the scan goes on.
  The call of \<^verbatim>\<open>os.listdir\<close> stands before the \<^verbatim>\<open>try\<close>: what it raises leaves the
  function.
\<close>

definition readf :: "attr \<Rightarrow> error + pystr option" where
  "readf a = (case a of Absent \<Rightarrow> Inr None | Unreadable \<Rightarrow> Inl OSError | Content s \<Rightarrow> Inr (Some s))"

definition read_device :: "(pystr \<Rightarrow> int option) \<Rightarrow> device \<Rightarrow> error + reading" where
  "read_device py_int d =
     (case readf (dev_capacity d) of
        Inl e \<Rightarrow> Inl e
      | Inr cap_text \<Rightarrow>
          (case readf (dev_status d) of
             Inl e \<Rightarrow> Inl e
           | Inr st \<Rightarrow>
               (let status = (case st of None \<Rightarrow> ascii ''Unknown''
                              | Some s \<Rightarrow> if s \<noteq> [] then s else ascii ''Unknown'')
                in case cap_text of
                     None \<Rightarrow> Inl TypeError
                   | Some c \<Rightarrow>
                       (case py_int c of
                          None \<Rightarrow> Inl ValueError
                        | Some n \<Rightarrow>
                            Inr \<lparr>info_percent = Some n, info_status = Some status,
                                 info_secs_left = None\<rparr>))))"

fun scan_devices :: "(pystr \<Rightarrow> int option) \<Rightarrow> device list \<Rightarrow> reading option" where
  "scan_devices py_int [] = None"
| "scan_devices py_int (d # ds) =
     (if startswith (lower (dev_name d)) (ascii ''bat'') \<or> dev_capacity d \<noteq> Absent
      then (case read_device py_int d of
              Inr info \<Rightarrow> Some info
            | Inl e \<Rightarrow> scan_devices py_int ds)
      else scan_devices py_int ds)"

definition get_sys_battery ::
  "(pystr \<Rightarrow> int option) \<Rightarrow> world \<Rightarrow> (error + reading option) \<times> world" where
  "get_sys_battery py_int w =
     (let w' = w\<lparr>consulted := consulted w @ [Sysfs]\<rparr>
      in case power_supply w of
           NoDirectory \<Rightarrow> (Inr None, w')
         | Unlistable \<Rightarrow> (Inl OSError, w')
         | Listing ds \<Rightarrow> (Inr (scan_devices py_int ds), w'))"

section \<open>The command\<close>

text \<open>
  \<^verbatim>\<open>
  def show(level, status, secsleft):      # each an option of the command line, or None
      info = get_psutil_battery() or get_sys_battery() or {}
      if level is not None:
          info["percent"] = level
      if status is not None:
          info["status"] = status
      if secsleft is not None:
          info["secs_left"] = secsleft
      percent = info.get("percent", 50)
      status = info.get("status", "Unknown")
      secs = info.get("secs_left", None)
      render_battery(percent, status, secs)
  \<close>
  \<^verbatim>\<open>a or b\<close> evaluates \<open>b\<close> only when \<open>a\<close> is false, and gives \<open>b\<close> then. An
  exception that leaves a source is caught nowhere: it ends the command.
  The command is \<open>show_cmd\<close> here, \<^verbatim>\<open>show\<close> being a keyword of the proof language.
\<close>

definition acquire :: "(pystr \<Rightarrow> int option) \<Rightarrow> world \<Rightarrow> (error + reading) \<times> world" where
  "acquire py_int w =
     (let (r1, w1) = get_psutil_battery w
      in if truthy r1 then (Inr (the r1), w1)
         else (let (r2, w2) = get_sys_battery py_int w1
               in case r2 of
                    Inl e \<Rightarrow> (Inl e, w2)
                  | Inr r \<Rightarrow> if truthy r then (Inr (the r), w2) else (Inr empty_reading, w2)))"

definition override :: "reading \<Rightarrow> int option \<Rightarrow> pystr option \<Rightarrow> int option \<Rightarrow> reading" where
  "override info level status secsleft =
     (let info = (case level of None \<Rightarrow> info | Some l \<Rightarrow> info\<lparr>info_percent := Some l\<rparr>);
          info = (case status of None \<Rightarrow> info | Some s \<Rightarrow> info\<lparr>info_status := Some s\<rparr>);
          info = (case secsleft of None \<Rightarrow> info
                  | Some t \<Rightarrow> info\<lparr>info_secs_left := Some (Some t)\<rparr>)
      in info)"

definition get_percent :: "reading \<Rightarrow> int" where
  "get_percent info = (case info_percent info of None \<Rightarrow> 50 | Some p \<Rightarrow> p)"

definition get_status :: "reading \<Rightarrow> pystr" where
  "get_status info = (case info_status info of None \<Rightarrow> ascii ''Unknown'' | Some s \<Rightarrow> s)"

definition get_secs :: "reading \<Rightarrow> int option" where
  "get_secs info = (case info_secs_left info of None \<Rightarrow> None | Some t \<Rightarrow> t)"

definition show_cmd ::
  "(pystr \<Rightarrow> int option) \<Rightarrow> world \<Rightarrow> int option \<Rightarrow> pystr option \<Rightarrow> int option
     \<Rightarrow> (error + rendered) \<times> world" where
  "show_cmd py_int w level status secsleft =
     (let (r, w') = acquire py_int w
      in case r of
           Inl e \<Rightarrow> (Inl e, w')
         | Inr info \<Rightarrow>
             (let info = override info level status secsleft
              in (render_battery (get_percent info) (get_status info) (get_secs info), w')))"

section \<open>The specification's formats\<close>

text \<open>
  \<open>H:MM:SS\<close> as the specification words it: the hours unbounded, minutes and seconds
  with two digits each.
\<close>

definition two_digits :: "int \<Rightarrow> pystr" where
  "two_digits n = [48 + nat n div 10, 48 + nat n mod 10]"

definition h_mm_ss :: "int \<Rightarrow> pystr" where
  "h_mm_ss secs =
     str_int (secs div 3600) @ ascii '':'' @ two_digits (secs div 60 mod 60)
       @ ascii '':'' @ two_digits (secs mod 60)"

text \<open>
  The filled-column count as the specification words it, the floor of
  \<open>percent * 28 / 100\<close>.
\<close>

definition floor_fill :: "int \<Rightarrow> int" where
  "floor_fill percent = \<lfloor>rat_of_int percent * 28 / 100\<rfloor>"

text \<open>
  The number of fill characters of a row, the interior rows of a gauge (the \<open>height\<close>
  rows below the cap and the top border) and the fill counts of the interior rows of the
  gauge that \<open>gauge_lines\<close> builds.
\<close>

definition fill_count :: "pystr \<Rightarrow> nat" where
  "fill_count l = count_list l 0x2588"

definition interior_rows :: "pystr list \<Rightarrow> pystr list" where
  "interior_rows lines = take (nat height) (drop 2 lines)"

definition fill_counts :: "int \<Rightarrow> error + nat list" where
  "fill_counts percent = map_sum id (map fill_count \<circ> interior_rows) (gauge_lines percent)"

section \<open>Decimal digits\<close>

lemma str_nat_digits: "set (str_nat n) \<subseteq> {48..57}"
proof (induction n rule: str_nat.induct)
  case (1 n)
  show ?case
  proof (cases "n < 10")
    case True
    then show ?thesis by (simp add: str_nat.simps)
  next
    case False
    have "n mod 10 < 10" by simp
    with False 1 show ?thesis by (subst str_nat.simps) auto
  qed
qed

lemma str_nat_small: "n < 10 \<Longrightarrow> str_nat n = [48 + n]"
  by (simp add: str_nat.simps)

lemma str_nat_two: "10 \<le> n \<Longrightarrow> n < 100 \<Longrightarrow> str_nat n = [48 + n div 10, 48 + n mod 10]"
  by (subst str_nat.simps) (simp add: str_nat_small)

lemma fmt_02d_two_digits: "0 \<le> n \<Longrightarrow> n < 100 \<Longrightarrow> fmt_0d 2 n = two_digits n"
proof -
  assume a: "0 \<le> n" "n < 100"
  show ?thesis
  proof (cases "nat n < 10")
    case True
    with a show ?thesis
      by (simp add: fmt_0d_def zpad_def two_digits_def str_nat_small ord_def)
  next
    case False
    with a have "10 \<le> nat n" "nat n < 100" by auto
    then show ?thesis using a
      by (simp add: fmt_0d_def zpad_def two_digits_def str_nat_two)
  qed
qed

section \<open>The time formatter\<close>

lemma split_dot_0_id: "46 \<notin> set s \<Longrightarrow> split_dot_0 s = s"
  by (simp add: split_dot_0_def ord_def takeWhile_eq_all_conv) metis

lemma str_int_no_dot: "0 \<le> n \<Longrightarrow> 46 \<notin> set (str_int n)"
  using str_nat_digits [of "nat n"] by (auto simp: str_int_def)

lemma two_digits_no_dot: "46 \<notin> set (two_digits n)"
  by (simp add: two_digits_def)

lemma h_mm_ss_no_dot: "0 \<le> secs \<Longrightarrow> 46 \<notin> set (h_mm_ss secs)"
  by (simp add: h_mm_ss_def str_int_no_dot two_digits_no_dot ascii_def ord_def
      pos_imp_zdiv_nonneg_iff)

lemma timedelta_str_day0:
  assumes "0 \<le> s" "s < 86400"
  shows "timedelta_str \<lparr>days = 0, seconds = s, microseconds = 0\<rparr> = h_mm_ss s"
proof -
  have m: "0 \<le> s div 60 mod 60" "s div 60 mod 60 < 100" "0 \<le> s mod 60" "s mod 60 < 100"
    by (simp_all add: pos_mod_bound [of 60, THEN less_trans])
  have h: "s div 60 div 60 = s div 3600"
    by (simp add: zdiv_zmult2_eq)
  show ?thesis
    by (simp add: timedelta_str_def Let_def h_mm_ss_def fmt_02d_two_digits m h)
qed

lemma timedelta_str_days:
  assumes "0 \<le> s" "s < 86400" "0 < d"
  shows "timedelta_str \<lparr>days = d, seconds = s, microseconds = 0\<rparr> =
     str_int d @ ascii '' day'' @ (if d \<noteq> 1 then ascii ''s'' else []) @ ascii '', '' @ h_mm_ss s"
proof -
  have m: "0 \<le> s div 60 mod 60" "s div 60 mod 60 < 100" "0 \<le> s mod 60" "s mod 60 < 100"
    by (simp_all add: pos_mod_bound [of 60, THEN less_trans])
  have h: "s div 60 div 60 = s div 3600"
    by (simp add: zdiv_zmult2_eq)
  from assms(3) have "\<bar>d\<bar> = d" "d \<noteq> 0" by auto
  then show ?thesis
    by (simp add: timedelta_str_def Let_def h_mm_ss_def fmt_02d_two_digits m h)
qed

text \<open>
  C2, as the code has it. A duration of a day or more is not printed with the hours
  unbounded: \<^verbatim>\<open>str(timedelta)\<close> splits the days off. For \<open>0 \<le> secs < 86400\<close> the result
  is \<open>H:MM:SS\<close>; from \<open>86400\<close> on it is the number of days, \<^verbatim>\<open>" day, "\<close> or
  \<^verbatim>\<open>" days, "\<close>, and \<open>H:MM:SS\<close> of the rest of the division by \<open>86400\<close>; from
  \<open>86400 * 10^9\<close> on \<^verbatim>\<open>timedelta\<close> raises \<^verbatim>\<open>OverflowError\<close>. The status plays no part.
\<close>

theorem format_time_duration:
  assumes "0 \<le> secs"
  shows "format_time (Some secs) status =
     (if secs < 86400 then Inr (h_mm_ss secs)
      else if secs < 86400 * 1000000000 then
        Inr (str_int (secs div 86400) @ ascii '' day''
               @ (if secs div 86400 \<noteq> 1 then ascii ''s'' else [])
               @ ascii '', '' @ h_mm_ss (secs mod 86400))
      else Inl OverflowError)"
proof -
  let ?d = "secs div 86400" and ?s = "secs mod 86400"
  have s: "0 \<le> ?s" "?s < 86400" by simp_all
  have d0: "0 \<le> ?d" using assms by (simp add: pos_imp_zdiv_nonneg_iff)
  consider (a) "secs < 86400" | (b) "86400 \<le> secs" "secs < 86400 * 1000000000"
    | (c) "86400 * 1000000000 \<le> secs" by linarith
  then show ?thesis
  proof cases
    case a
    with assms have "?d = 0" "?s = secs" by simp_all
    with a assms show ?thesis
      by (simp add: format_time_def timedelta_seconds_def timedelta_str_day0
          split_dot_0_id h_mm_ss_no_dot)
  next
    case b
    then have dpos: "0 < ?d" and dle: "?d \<le> 999999999" by linarith+
    have nd: "46 \<notin> set (str_int ?d @ ascii '' day''
               @ (if ?d \<noteq> 1 then ascii ''s'' else [])
               @ ascii '', '' @ h_mm_ss ?s)"
      using d0 by (simp add: str_int_no_dot h_mm_ss_no_dot ascii_def ord_def)
    from b dpos dle assms show ?thesis
      by (simp add: format_time_def timedelta_seconds_def timedelta_str_days s
          split_dot_0_id [OF nd])
  next
    case c
    then have "999999999 < ?d" by linarith
    with c assms show ?thesis
      by (simp add: format_time_def timedelta_seconds_def)
  qed
qed

theorem format_time_duration_witness:
  "(0::int) \<le> 3661
   \<and> format_time (Some 3661) (Some (ascii ''Discharging'')) = Inr (ascii ''1:01:01'')
   \<and> format_time (Some 3661) None = Inr (ascii ''1:01:01'')
   \<and> format_time (Some 90061) None = Inr (ascii ''1 day, 1:01:01'')"
  using format_time_duration [of 3661 "Some (ascii ''Discharging'')"]
    format_time_duration [of 3661 None] format_time_duration [of 90061 None]
  by (simp add: h_mm_ss_def two_digits_def str_int_def str_nat_small ascii_def ord_def)

text \<open>At one day the code prints \<^verbatim>\<open>1 day, 0:00:00\<close>, not \<^verbatim>\<open>24:00:00\<close>.\<close>

theorem format_time_day_counterexample:
  "format_time (Some 86400) None = Inr (ascii ''1 day, 0:00:00'')
   \<and> h_mm_ss 86400 = ascii ''24:00:00''
   \<and> format_time (Some 86400) None \<noteq> Inr (h_mm_ss 86400)"
  by code_simp

text \<open>
  C5. When \<open>secs\<close> is absent or negative, \<open>format_time\<close> returns \<^verbatim>\<open>Charging...\<close> if the
  status is present and its lower-case form starts with \<^verbatim>\<open>charg\<close>, and \<^verbatim>\<open>Unknown\<close>
  otherwise.
\<close>

theorem format_time_absent_or_negative:
  assumes "secs = None \<or> (\<exists>n. secs = Some n \<and> n < 0)"
  shows "format_time secs status =
     Inr (if \<exists>s. status = Some s \<and> startswith (lower s) (ascii ''charg'')
          then ascii ''Charging...'' else ascii ''Unknown'')"
proof -
  have e: "\<not> startswith (lower []) (ascii ''charg'')"
    by (simp add: startswith_def lower_def ascii_def)
  from assms have c: "(case secs of None \<Rightarrow> True | Some n \<Rightarrow> n < 0)"
    by auto
  show ?thesis
    unfolding format_time_def using c e
    by (cases status) auto
qed

theorem format_time_absent_or_negative_witness:
  "format_time None None = Inr (ascii ''Unknown'')
   \<and> format_time None (Some (ascii ''Charging'')) = Inr (ascii ''Charging...'')
   \<and> format_time None (Some (ascii ''cHARGING'')) = Inr (ascii ''Charging...'')
   \<and> format_time (Some (- 5)) (Some (ascii ''Discharging'')) = Inr (ascii ''Unknown'')"
  using format_time_absent_or_negative [of None None]
    format_time_absent_or_negative [of None "Some (ascii ''Charging'')"]
    format_time_absent_or_negative [of None "Some (ascii ''cHARGING'')"]
    format_time_absent_or_negative [of "Some (- 5)" "Some (ascii ''Discharging'')"]
  by (simp add: startswith_def lower_def lower_cp_def ascii_def ord_def)

section \<open>The colour thresholds\<close>

text \<open>
  C7. The colour is \<^verbatim>\<open>red\<close> exactly when \<open>percent < 20\<close>, \<^verbatim>\<open>yellow\<close> exactly when
  \<open>20 \<le> percent < 60\<close> and \<^verbatim>\<open>green\<close> exactly when \<open>60 \<le> percent\<close>.
\<close>

theorem color_for_percent_thresholds:
  "(color_for_percent percent = ascii ''red'' \<longleftrightarrow> percent < 20)
   \<and> (color_for_percent percent = ascii ''yellow'' \<longleftrightarrow> 20 \<le> percent \<and> percent < 60)
   \<and> (color_for_percent percent = ascii ''green'' \<longleftrightarrow> 60 \<le> percent)"
  by (simp add: color_for_percent_def ascii_def ord_def)

theorem color_for_percent_thresholds_witness:
  "color_for_percent 19 = ascii ''red'' \<and> color_for_percent 20 = ascii ''yellow''
   \<and> color_for_percent 59 = ascii ''yellow'' \<and> color_for_percent 60 = ascii ''green''"
  using color_for_percent_thresholds [of 19] color_for_percent_thresholds [of 20]
    color_for_percent_thresholds [of 59] color_for_percent_thresholds [of 60]
  by simp

section \<open>The gauge\<close>

lemma length_str_mul1: "length (str_mul [c] n) = nat n"
  by (simp add: str_mul_def length_concat sum_list_replicate)

lemma fill_cols_nonneg: "0 \<le> percent \<Longrightarrow> fill_cols percent = percent * 28 div 100"
  by (cases "percent = 0") (simp_all add: fill_cols_def int_truediv_def width_def sgn_if)

lemma fill_cols_neg: "percent < 0 \<Longrightarrow> fill_cols percent = - ((- percent * 28) div 100)"
  by (simp add: fill_cols_def int_truediv_def width_def sgn_if mult_less_0_iff)

lemma fill_cols_range:
  "0 \<le> percent \<Longrightarrow> percent \<le> 100 \<Longrightarrow> 0 \<le> fill_cols percent \<and> fill_cols percent \<le> 28"
  by (simp add: fill_cols_nonneg) linarith

lemma floor_fill_div: "floor_fill percent = percent * 28 div 100"
proof -
  have "rat_of_int percent * 28 / 100 = rat_of_int (percent * 28) / rat_of_int 100" by simp
  then show ?thesis unfolding floor_fill_def by (simp only: floor_divide_of_int_eq)
qed

lemma length_interior_row:
  "length (interior_row percent) = 2 + nat (fill_cols percent) + nat (width - fill_cols percent)"
  by (simp add: interior_row_def full_block_def ascii_def length_str_mul1)

lemma count_list_replicate_same: "count_list (replicate n x) x = n"
  by (induction n) simp_all

lemma count_list_replicate_other: "x \<noteq> y \<Longrightarrow> count_list (replicate n x) y = 0"
  by (induction n) simp_all

lemma fill_count_interior_row: "fill_count (interior_row percent) = nat (fill_cols percent)"
  by (simp add: fill_count_def interior_row_def str_mul_def full_block_def ascii_def ord_def
      count_list_replicate_same count_list_replicate_other)

text \<open>
  C1, as the code has it. The filled-column count is \<open>percent * 28 / 100\<close> truncated
  toward zero: the floor for \<open>percent \<ge> 0\<close>, the ceiling below. It is not clamped; it is
  negative exactly from \<open>percent = -4\<close> down and above \<open>28\<close> exactly from \<open>percent = 104\<close>
  up. An interior row then has that many fill characters (none for a negative count) and
  \<open>28 - fill_cols percent\<close> spaces (none when that is negative) between its two borders.
\<close>

theorem fill_cols_truncation:
  assumes "\<bar>percent * 28\<bar> < 2 ^ 53"
  shows "fill_cols percent =
           (if 0 \<le> percent then floor_fill percent else - floor_fill (- percent))
    \<and> (fill_cols percent < 0 \<longleftrightarrow> percent \<le> - 4)
    \<and> (28 < fill_cols percent \<longleftrightarrow> 104 \<le> percent)
    \<and> fill_count (interior_row percent) = nat (fill_cols percent)
    \<and> length (interior_row percent) = 2 + nat (fill_cols percent) + nat (28 - fill_cols percent)"
proof -
  have 1: "fill_cols percent =
      (if 0 \<le> percent then floor_fill percent else - floor_fill (- percent))"
    by (simp add: fill_cols_nonneg fill_cols_neg floor_fill_div)
  have 2: "fill_cols percent < 0 \<longleftrightarrow> percent \<le> - 4"
    by (cases "0 \<le> percent") (simp_all add: fill_cols_nonneg fill_cols_neg, linarith+)
  have 3: "28 < fill_cols percent \<longleftrightarrow> 104 \<le> percent"
    by (cases "0 \<le> percent") (simp_all add: fill_cols_nonneg fill_cols_neg, linarith+)
  show ?thesis
    using 1 2 3 by (simp add: fill_count_interior_row length_interior_row width_def)
qed

theorem fill_cols_truncation_witness:
  "\<bar>(15::int) * 28\<bar> < 2 ^ 53 \<and> fill_cols 15 = 4 \<and> floor_fill 15 = 4
   \<and> fill_cols (- 7) = - 1 \<and> fill_cols 150 = 42 \<and> length (interior_row 150) = 44"
  using fill_cols_truncation [of 15] fill_cols_truncation [of "- 7"] fill_cols_truncation [of 150]
  by (simp add: floor_fill_div)

text \<open>
  At \<open>percent = -1\<close> the count is \<open>0\<close>, where the floor is \<open>-1\<close>, and it lies within
  \<open>[0, 28]\<close>; so does the count \<open>28\<close> at \<open>percent = 101\<close>.
\<close>

theorem fill_cols_floor_counterexample:
  "fill_cols (- 1) = 0 \<and> floor_fill (- 1) = - 1 \<and> fill_cols (- 1) \<noteq> floor_fill (- 1)
   \<and> 0 \<le> fill_cols (- 1) \<and> fill_cols (- 1) \<le> 28
   \<and> fill_cols 101 = 28"
  by (simp add: fill_cols_nonneg fill_cols_neg floor_fill_div)

subsection \<open>The box and the overlay\<close>

lemma length_cap_line: "length (center cap (width + 2)) = 30"
  by (simp add: center_def cap_def width_def ascii_def length_str_mul1)

lemma length_box_lines: "length (box_lines percent) = 12"
  by (simp add: box_lines_def height_def)

lemma set_box_lines:
  "set (box_lines percent) =
     {center cap (width + 2), [0x256D] @ str_mul [0x2500] width @ [0x256E],
      interior_row percent, [0x2570] @ str_mul [0x2500] width @ [0x256F]}"
  by (auto simp: box_lines_def height_def)

lemma box_lines_nth:
  "2 \<le> i \<Longrightarrow> i < 11 \<Longrightarrow> box_lines percent ! i = interior_row percent"
  by (auto simp: box_lines_def height_def nth_append nth_Cons')

lemma list_setitem_ok:
  "0 \<le> k \<Longrightarrow> k < int (length xs) \<Longrightarrow> list_setitem xs k v = Inr (xs[nat k := v])"
  by (simp add: list_setitem_def Let_def)

text \<open>
  While the text fits into the row from position \<open>k\<close> on, the loop succeeds and replaces
  exactly the cells \<open>k, \<dots>, k + length cs - 1\<close>.
\<close>

lemma overlay_ok:
  "0 \<le> k \<Longrightarrow> k + int (length cs) \<le> int (length row) \<Longrightarrow>
     overlay row k cs = Inr (take (nat k) row @ cs @ drop (nat k + length cs) row)"
proof (induction cs arbitrary: row k)
  case Nil
  then show ?case by simp
next
  case (Cons c cs)
  from Cons.prems have k: "k < int (length row)" by simp
  have "overlay (row[nat k := c]) (k + 1) cs =
      Inr (take (nat (k + 1)) (row[nat k := c]) @ cs
             @ drop (nat (k + 1) + length cs) (row[nat k := c]))"
    using Cons.prems by (intro Cons.IH) simp_all
  moreover have "take (nat (k + 1)) (row[nat k := c]) = take (nat k) row @ [c]"
    using Cons.prems k by (simp add: nat_add_distrib take_Suc_conv_app_nth)
  moreover have "drop (nat (k + 1) + length cs) (row[nat k := c]) =
      drop (nat k + length (c # cs)) row"
    using Cons.prems by (simp add: nat_add_distrib)
  ultimately show ?case
    using Cons.prems k by (simp add: list_setitem_ok)
qed

lemma length_str_nat: "n < 10 ^ k \<Longrightarrow> 0 < k \<Longrightarrow> length (str_nat n) \<le> k"
proof (induction n arbitrary: k rule: str_nat.induct)
  case (1 n)
  show ?case
  proof (cases "n < 10")
    case True
    with 1 show ?thesis by (simp add: str_nat_small)
  next
    case False
    from 1(3) obtain j where k: "k = Suc j" by (cases k) auto
    from False 1(2) k have j: "0 < j" by (cases j) auto
    from 1(2) k have "n div 10 < 10 ^ j" by (simp add: less_mult_imp_div_less)
    with 1(1) [OF False _ j] have "length (str_nat (n div 10)) \<le> j" by simp
    with False k show ?thesis by (subst str_nat.simps) simp
  qed
qed

lemma length_str_nat_pos: "Suc 0 \<le> length (str_nat n)"
  by (subst str_nat.simps) simp

lemma length_perc_text:
  assumes "0 \<le> percent" "percent < 10 ^ k" "0 < k"
  shows "2 \<le> length (perc_text percent) \<and> length (perc_text percent) \<le> k + 1"
proof -
  from assms have "nat percent < 10 ^ k"
    by (metis nat_less_iff of_nat_numeral of_nat_power)
  from length_str_nat [OF this assms(3)] length_str_nat_pos [of "nat percent"] assms(1)
  show ?thesis by (simp add: perc_text_def str_int_def ascii_def)
qed

lemma start_bounds:
  assumes "2 \<le> length (perc_text percent)" "length (perc_text percent) \<le> 28"
  shows "1 \<le> start percent \<and> start percent + int (length (perc_text percent)) \<le> 29"
  using assms unfolding start_def width_def by linarith

lemma length_perc_text_abs:
  assumes "\<bar>percent\<bar> < 10 ^ k" "0 < k"
  shows "2 \<le> length (perc_text percent) \<and> length (perc_text percent) \<le> k + 2"
proof -
  from assms have "nat \<bar>percent\<bar> < 10 ^ k"
    by (metis abs_ge_zero nat_less_iff of_nat_numeral of_nat_power)
  from length_str_nat [OF this assms(2)] length_str_nat_pos [of "nat \<bar>percent\<bar>"]
  show ?thesis
    by (cases "percent < 0") (simp_all add: perc_text_def str_int_def ascii_def abs_if)
qed

text \<open>
  A row is never shorter than thirty cells, so a percentage text of at most \<open>28\<close>
  characters always fits: the overlay succeeds and keeps the length of the row.
\<close>

lemma gauge_lines_ok:
  assumes t: "2 \<le> length (perc_text percent)" "length (perc_text percent) \<le> 28"
  shows "\<exists>row. gauge_lines percent = Inr ((box_lines percent)[nat mid := row])
           \<and> length row = length (interior_row percent)"
proof -
  let ?row = "interior_row percent" and ?k = "start percent" and ?t = "perc_text percent"
  have len: "30 \<le> length ?row"
    by (simp add: length_interior_row width_def)
  have m: "box_lines percent ! nat mid = ?row"
    by (simp add: mid_def height_def box_lines_nth)
  from start_bounds [OF t] have k: "0 \<le> ?k" "?k + int (length ?t) \<le> int (length ?row)"
    using len by simp_all
  let ?new = "take (nat ?k) ?row @ ?t @ drop (nat ?k + length ?t) ?row"
  have "overlay ?row ?k ?t = Inr ?new"
    using k by (rule overlay_ok)
  then have "gauge_lines percent = Inr ((box_lines percent)[nat mid := ?new])"
    by (simp add: gauge_lines_def m)
  moreover have "length ?new = length ?row"
    using k by (simp add: min_def) linarith
  ultimately show ?thesis by blast
qed

lemma box_lines_aligned:
  assumes "0 \<le> fill_cols percent" "fill_cols percent \<le> 28"
  shows "\<forall>l \<in> set (box_lines percent). length l = 30"
  using assms length_cap_line
  by (auto simp: set_box_lines length_interior_row length_str_mul1 width_def)

text \<open>
  C10. For \<open>percent\<close> in \<open>[0, 100]\<close> the filled-column count lies in \<open>[0, 28]\<close>, and each of
  the twelve lines of the gauge box (the cap, the two borders and the nine interior rows)
  is thirty characters long, before the percentage is written into the middle row and
  after it.
\<close>

theorem gauge_box_aligned:
  assumes "0 \<le> percent" "percent \<le> 100"
  shows "0 \<le> fill_cols percent \<and> fill_cols percent \<le> 28
    \<and> length (box_lines percent) = 12
    \<and> (\<forall>l \<in> set (box_lines percent). length l = 30)
    \<and> (\<exists>lines. gauge_lines percent = Inr lines \<and> length lines = 12
          \<and> (\<forall>l \<in> set lines. length l = 30))"
proof -
  from assms have f: "0 \<le> fill_cols percent" "fill_cols percent \<le> 28"
    using fill_cols_range by simp_all
  from assms have "percent < 10 ^ 3" by simp
  from length_perc_text [OF assms(1) this]
  have t: "2 \<le> length (perc_text percent)" "length (perc_text percent) \<le> 28" by simp_all
  from gauge_lines_ok [OF t] obtain row
    where g: "gauge_lines percent = Inr ((box_lines percent)[nat mid := row])"
      and "length row = length (interior_row percent)" by blast
  with f have r: "length row = 30"
    by (simp add: length_interior_row width_def)
  have "\<forall>l \<in> set ((box_lines percent)[nat mid := row]). length l = 30"
    using box_lines_aligned [OF f] r
      set_update_subset_insert [of "box_lines percent" "nat mid" row]
    by auto
  with g f box_lines_aligned [OF f] show ?thesis
    by (simp add: length_box_lines)
qed

theorem gauge_box_aligned_witness:
  "(0::int) \<le> 100 \<and> fill_cols 100 = 28
   \<and> (\<exists>lines. gauge_lines 100 = Inr lines \<and> length lines = 12
         \<and> (\<forall>l \<in> set lines. length l = 30))"
  using gauge_box_aligned [of 100] by (simp add: fill_cols_nonneg)

subsection \<open>The gauge at fifty percent\<close>

lemma replicate_numeral: "replicate (numeral k) x = x # replicate (pred_numeral k) x"
  by (simp add: numeral_eq_Suc)

lemma interior_row_50:
  "interior_row 50 = [0x2502] @ replicate 14 0x2588 @ replicate 14 32 @ [0x2502]"
  by (simp add: interior_row_def fill_cols_nonneg str_mul_def full_block_def width_def
      ascii_def ord_def)

lemma perc_text_50: "perc_text 50 = ascii ''50%''"
  by (simp add: perc_text_def str_int_def str_nat_two ascii_def ord_def)

lemma start_50: "start 50 = 13"
  by (simp add: start_def perc_text_50 width_def ascii_def)

lemma mid_6: "nat mid = 6"
  by (simp add: mid_def height_def)

lemma overlay_50:
  "overlay (interior_row 50) 13 (ascii ''50%'') =
     Inr ([0x2502] @ replicate 12 0x2588 @ ascii ''50%'' @ replicate 13 32 @ [0x2502])"
proof -
  have "overlay (interior_row 50) 13 (ascii ''50%'') =
      Inr (take (nat 13) (interior_row 50) @ ascii ''50%''
             @ drop (nat 13 + length (ascii ''50%'')) (interior_row 50))"
    by (rule overlay_ok) (simp_all add: length_interior_row fill_cols_nonneg width_def ascii_def)
  also have "take (nat 13) (interior_row 50) = [0x2502] @ replicate 12 0x2588"
    by (simp add: interior_row_50)
  also have "drop (nat 13 + length (ascii ''50%'')) (interior_row 50) =
      replicate 13 32 @ [0x2502]"
    by (simp add: interior_row_50 ascii_def)
  finally show ?thesis by simp
qed

lemma box_lines_50:
  "box_lines 50 =
     [center cap 30, [0x256D] @ replicate 28 0x2500 @ [0x256E]]
       @ replicate 9 (interior_row 50) @ [[0x2570] @ replicate 28 0x2500 @ [0x256F]]"
  by (simp add: box_lines_def width_def height_def str_mul_def)

lemma gauge_lines_50:
  "gauge_lines 50 =
     Inr ([center cap 30, [0x256D] @ replicate 28 0x2500 @ [0x256E]]
          @ replicate 4 ([0x2502] @ replicate 14 0x2588 @ replicate 14 32 @ [0x2502])
          @ [[0x2502] @ replicate 12 0x2588 @ ascii ''50%'' @ replicate 13 32 @ [0x2502]]
          @ replicate 4 ([0x2502] @ replicate 14 0x2588 @ replicate 14 32 @ [0x2502])
          @ [[0x2570] @ replicate 28 0x2500 @ [0x256F]])"
proof -
  let ?r = "interior_row 50"
  let ?pre = "[center cap 30, [0x256D] @ replicate 28 0x2500 @ [0x256E]] @ replicate 4 ?r"
  let ?post = "replicate 4 ?r @ [[0x2570] @ replicate 28 0x2500 @ [0x256F]]"
  have "replicate 9 ?r = replicate 4 ?r @ ?r # replicate 4 ?r"
    by (simp add: replicate_numeral)
  then have b: "box_lines 50 = ?pre @ ?r # ?post"
    by (simp add: box_lines_50)
  have l: "length ?pre = 6" by simp
  have r: "box_lines 50 ! 6 = ?r" by (simp add: box_lines_nth)
  have u: "(box_lines 50)[6 := x] = ?pre @ x # ?post" for x
    unfolding b using list_update_length [of ?pre ?r ?post x] by (simp only: l)
  show ?thesis
    unfolding gauge_lines_def Let_def mid_6 start_50 perc_text_50 r overlay_50 u
    by (simp add: interior_row_50)
qed

lemma fill_counts_50: "fill_counts 50 = Inr [14, 14, 14, 14, 12, 14, 14, 14, 14]"
  unfolding fill_counts_def gauge_lines_50
  by (simp add: interior_rows_def height_def fill_count_def replicate_numeral ascii_def ord_def)

text \<open>
  C6, as the code has it. At \<open>percent = 50\<close> the text \<^verbatim>\<open>50%\<close> is written into the interior
  row of index \<open>height div 2 = 4\<close> (line \<open>2 + 4\<close> of the gauge), at the centred offset
  \<open>(28 - 3) div 2 = 12\<close> of the interior, with \<open>13\<close> cells to its right. Every interior row
  is built with \<open>14\<close> fill characters; the eight rows without the text keep them, and the
  text overwrites the last two of the middle row, which is left with \<open>12\<close>.
\<close>

theorem gauge_50_overlay:
  "gauge_lines 50 =
     Inr ([center cap 30, [0x256D] @ replicate 28 0x2500 @ [0x256E]]
          @ replicate 4 ([0x2502] @ replicate 14 0x2588 @ replicate 14 32 @ [0x2502])
          @ [[0x2502] @ replicate 12 0x2588 @ ascii ''50%'' @ replicate 13 32 @ [0x2502]]
          @ replicate 4 ([0x2502] @ replicate 14 0x2588 @ replicate 14 32 @ [0x2502])
          @ [[0x2570] @ replicate 28 0x2500 @ [0x256F]])
   \<and> interior_row 50 = [0x2502] @ replicate 14 0x2588 @ replicate 14 32 @ [0x2502]
   \<and> fill_cols 50 = 14 \<and> floor_fill 50 = 14
   \<and> perc_text 50 = ascii ''50%''
   \<and> mid = 2 + height div 2
   \<and> start 50 = 1 + (28 - 3) div 2
   \<and> fill_counts 50 = Inr [14, 14, 14, 14, 12, 14, 14, 14, 14]"
  using gauge_lines_50 interior_row_50 perc_text_50 start_50 fill_counts_50
  by (simp add: fill_cols_nonneg floor_fill_div mid_def)

text \<open>In the rendered gauge the middle row has twelve fill characters, not fourteen.\<close>

theorem gauge_50_centre_row_counterexample:
  "fill_counts 50 = Inr [14, 14, 14, 14, 12, 14, 14, 14, 14]
   \<and> fill_counts 50 \<noteq> Inr (replicate 9 14)"
  using fill_counts_50 by (simp add: replicate_numeral)

section \<open>The \<^verbatim>\<open>psutil\<close> source\<close>

lemma py_round_cases:
  obtains (down) "py_round x = \<lfloor>x\<rfloor>" "x - rat_of_int \<lfloor>x\<rfloor> < 1 / 2"
  | (up) "py_round x = \<lfloor>x\<rfloor> + 1" "1 / 2 < x - rat_of_int \<lfloor>x\<rfloor>"
  | (tie) "x - rat_of_int \<lfloor>x\<rfloor> = 1 / 2" "even (py_round x)"
      "py_round x = \<lfloor>x\<rfloor> \<or> py_round x = \<lfloor>x\<rfloor> + 1"
proof -
  let ?r = "x - rat_of_int \<lfloor>x\<rfloor>"
  consider "?r < 1 / 2" | "1 / 2 < ?r" | "?r = 1 / 2" by linarith
  then show ?thesis
  proof cases
    case 1
    then have "py_round x = \<lfloor>x\<rfloor>" by (simp add: py_round_def Let_def)
    from this 1 show ?thesis by (rule down)
  next
    case 2
    then have "py_round x = \<lfloor>x\<rfloor> + 1" by (simp add: py_round_def Let_def)
    from this 2 show ?thesis by (rule up)
  next
    case 3
    then have "py_round x = (if even \<lfloor>x\<rfloor> then \<lfloor>x\<rfloor> else \<lfloor>x\<rfloor> + 1)"
      by (simp add: py_round_def Let_def)
    then have "even (py_round x)" "py_round x = \<lfloor>x\<rfloor> \<or> py_round x = \<lfloor>x\<rfloor> + 1"
      by (simp_all split: if_splits)
    from 3 this show ?thesis by (rule tie)
  qed
qed

lemma py_round_nearest: "\<bar>rat_of_int (py_round x) - x\<bar> \<le> 1 / 2"
proof -
  have b: "rat_of_int \<lfloor>x\<rfloor> \<le> x" "x < rat_of_int \<lfloor>x\<rfloor> + 1" by linarith+
  show ?thesis
  proof (cases x rule: py_round_cases)
    case down
    with b show ?thesis by simp
  next
    case up
    with b show ?thesis by simp
  next
    case tie
    from tie(3) show ?thesis
    proof
      assume "py_round x = \<lfloor>x\<rfloor>"
      with b tie(1) show ?thesis by simp
    next
      assume "py_round x = \<lfloor>x\<rfloor> + 1"
      with b tie(1) show ?thesis by simp
    qed
  qed
qed

lemma py_round_tie: "\<bar>rat_of_int (py_round x) - x\<bar> = 1 / 2 \<Longrightarrow> even (py_round x)"
proof -
  assume a: "\<bar>rat_of_int (py_round x) - x\<bar> = 1 / 2"
  have b: "rat_of_int \<lfloor>x\<rfloor> \<le> x" "x < rat_of_int \<lfloor>x\<rfloor> + 1" by linarith+
  show ?thesis
  proof (cases x rule: py_round_cases)
    case down
    with a b show ?thesis by simp
  next
    case up
    with a b show ?thesis by simp
  next
    case tie
    then show ?thesis by simp
  qed
qed

lemma get_psutil_battery_Some:
  "psutil w = Installed (Some b) \<Longrightarrow>
     get_psutil_battery w = (Some (psutil_reading b), w\<lparr>consulted := consulted w @ [Psutil]\<rparr>)"
  by (simp add: get_psutil_battery_def)

text \<open>
  C8, as the code has it. When \<^verbatim>\<open>psutil\<close> reports a battery, the reading has the reported
  percentage rounded to a nearest integer (a tie goes to the even one), the status
  \<^verbatim>\<open>Charging\<close> if \<^verbatim>\<open>power_plugged\<close> is true and \<^verbatim>\<open>Discharging\<close> otherwise, and
  \<^verbatim>\<open>secs_left\<close> absent when \<^verbatim>\<open>secsleft\<close> is \<^verbatim>\<open>POWER_TIME_UNKNOWN\<close> or \<^verbatim>\<open>None\<close>; every
  other reported value is stored as it is, \<^verbatim>\<open>POWER_TIME_UNLIMITED\<close> included.
\<close>

theorem psutil_reading_fields:
  assumes "psutil w = Installed (Some b)"
  shows "\<exists>r p. fst (get_psutil_battery w) = Some r
     \<and> info_percent r = Some p
     \<and> \<bar>rat_of_int p - b_percent b\<bar> \<le> 1 / 2
     \<and> (if \<bar>rat_of_int p - b_percent b\<bar> = 1 / 2 then even p else True)
     \<and> info_status r = Some (if b_power_plugged b = Some True then ascii ''Charging''
                              else ascii ''Discharging'')
     \<and> info_secs_left r = Some (if b_secsleft b = None \<or> b_secsleft b = Some POWER_TIME_UNKNOWN
                                 then None else b_secsleft b)"
  using py_round_nearest [of "b_percent b"] py_round_tie [of "b_percent b"]
  by (auto simp: get_psutil_battery_Some [OF assms] psutil_reading_def POWER_TIME_UNKNOWN_def)

lemma py_round_examples: "py_round (187 / 2) = 94" "py_round (185 / 2) = 92" "py_round 100 = 100"
  by code_simp+

theorem psutil_reading_fields_witness:
  "psutil \<lparr>psutil = Installed (Some \<lparr>b_percent = 187 / 2, b_secsleft = Some 7200,
                b_power_plugged = Some False\<rparr>), power_supply = NoDirectory, consulted = []\<rparr>
     = Installed (Some \<lparr>b_percent = 187 / 2, b_secsleft = Some 7200, b_power_plugged = Some False\<rparr>)
   \<and> fst (get_psutil_battery \<lparr>psutil = Installed (Some \<lparr>b_percent = 187 / 2,
                b_secsleft = Some 7200, b_power_plugged = Some False\<rparr>),
              power_supply = NoDirectory, consulted = []\<rparr>)
     = Some \<lparr>info_percent = Some 94, info_status = Some (ascii ''Discharging''),
             info_secs_left = Some (Some 7200)\<rparr>"
  using psutil_reading_fields [of "\<lparr>psutil = Installed (Some \<lparr>b_percent = 187 / 2,
                b_secsleft = Some 7200, b_power_plugged = Some False\<rparr>),
              power_supply = NoDirectory, consulted = []\<rparr>"
              "\<lparr>b_percent = 187 / 2, b_secsleft = Some 7200, b_power_plugged = Some False\<rparr>"]
  by (simp add: get_psutil_battery_def psutil_reading_def py_round_examples)

text \<open>
  With the power cable connected \<^verbatim>\<open>psutil\<close> reports \<^verbatim>\<open>POWER_TIME_UNLIMITED\<close>; the reading
  then holds \<open>-2\<close> seconds, not an absent value.
\<close>

theorem psutil_unlimited_counterexample:
  "fst (get_psutil_battery \<lparr>psutil = Installed (Some \<lparr>b_percent = 100,
                b_secsleft = Some POWER_TIME_UNLIMITED, b_power_plugged = Some True\<rparr>),
              power_supply = NoDirectory, consulted = []\<rparr>)
     = Some \<lparr>info_percent = Some 100, info_status = Some (ascii ''Charging''),
             info_secs_left = Some (Some (- 2))\<rparr>
   \<and> get_secs \<lparr>info_percent = Some 100, info_status = Some (ascii ''Charging''),
               info_secs_left = Some (Some (- 2))\<rparr> \<noteq> None"
  by (simp add: get_psutil_battery_def psutil_reading_def POWER_TIME_UNLIMITED_def
      py_round_examples get_secs_def)

section \<open>Composition of the sources\<close>

lemma truthy_psutil_reading: "truthy (Some (psutil_reading b))"
  by (simp add: truthy_def psutil_reading_def)

lemma read_device_truthy: "read_device py_int d = Inr r \<Longrightarrow> truthy (Some r)"
  by (auto simp: read_device_def truthy_def Let_def split: sum.splits option.splits)

lemma scan_devices_truthy: "scan_devices py_int ds = Some r \<Longrightarrow> truthy (Some r)"
  by (induction ds) (auto simp: read_device_truthy split: if_splits sum.splits)

lemma fst_get_psutil_battery:
  "fst (get_psutil_battery w) =
     (case psutil w of Installed (Some b) \<Rightarrow> Some (psutil_reading b) | _ \<Rightarrow> None)"
  by (simp add: get_psutil_battery_def Let_def split: psutil_module.splits option.splits)

lemma snd_get_psutil_battery:
  "snd (get_psutil_battery w) = w\<lparr>consulted := consulted w @ [Psutil]\<rparr>"
  by (simp add: get_psutil_battery_def Let_def split: psutil_module.splits option.splits)

lemma fst_get_sys_battery:
  "fst (get_sys_battery py_int w) =
     (case power_supply w of
        NoDirectory \<Rightarrow> Inr None
      | Unlistable \<Rightarrow> Inl OSError
      | Listing ds \<Rightarrow> Inr (scan_devices py_int ds))"
  by (simp add: get_sys_battery_def Let_def split: directory.splits)

lemma snd_get_sys_battery:
  "snd (get_sys_battery py_int w) = w\<lparr>consulted := consulted w @ [Sysfs]\<rparr>"
  by (simp add: get_sys_battery_def Let_def split: directory.splits)

lemma truthy_get_psutil_battery: "truthy (fst (get_psutil_battery w)) \<longleftrightarrow> fst (get_psutil_battery w) \<noteq> None"
  by (auto simp: fst_get_psutil_battery truthy_psutil_reading split: psutil_module.splits option.splits)
    (simp add: truthy_def)+

lemma truthy_get_sys_battery:
  "fst (get_sys_battery py_int w) = Inr r \<Longrightarrow> truthy r \<longleftrightarrow> r \<noteq> None"
  using scan_devices_truthy [of py_int]
  by (cases r) (auto simp: fst_get_sys_battery truthy_def split: directory.splits)

lemma acquire_eq:
  "acquire py_int w =
     (case fst (get_psutil_battery w) of
        Some r \<Rightarrow> (Inr r, w\<lparr>consulted := consulted w @ [Psutil]\<rparr>)
      | None \<Rightarrow>
          (case fst (get_sys_battery py_int w) of
             Inl e \<Rightarrow> (Inl e, w\<lparr>consulted := consulted w @ [Psutil, Sysfs]\<rparr>)
           | Inr (Some r) \<Rightarrow> (Inr r, w\<lparr>consulted := consulted w @ [Psutil, Sysfs]\<rparr>)
           | Inr None \<Rightarrow> (Inr empty_reading, w\<lparr>consulted := consulted w @ [Psutil, Sysfs]\<rparr>)))"
proof -
  let ?w1 = "w\<lparr>consulted := consulted w @ [Psutil]\<rparr>"
  let ?w2 = "w\<lparr>consulted := consulted w @ [Psutil, Sysfs]\<rparr>"
  have s: "fst (get_sys_battery py_int ?w1) = fst (get_sys_battery py_int w)"
    by (simp add: fst_get_sys_battery)
  have s2: "snd (get_sys_battery py_int ?w1) = ?w2"
    by (simp add: snd_get_sys_battery)
  have a: "acquire py_int w =
      (if truthy (fst (get_psutil_battery w)) then (Inr (the (fst (get_psutil_battery w))), ?w1)
       else (case fst (get_sys_battery py_int w) of
               Inl e \<Rightarrow> (Inl e, ?w2)
             | Inr r \<Rightarrow> if truthy r then (Inr (the r), ?w2) else (Inr empty_reading, ?w2)))"
    by (simp add: acquire_def split_beta Let_def snd_get_psutil_battery s s2)
  show ?thesis
  proof (cases "fst (get_psutil_battery w)")
    case (Some r)
    then show ?thesis
      unfolding a truthy_get_psutil_battery by simp
  next
    case None
    show ?thesis
    proof (cases "fst (get_sys_battery py_int w)")
      case (Inl e)
      with None show ?thesis
        unfolding a truthy_get_psutil_battery by simp
    next
      case (Inr r)
      from truthy_get_sys_battery [OF Inr] None Inr show ?thesis
        unfolding a truthy_get_psutil_battery by (cases r) simp_all
    qed
  qed
qed

text \<open>
  C3. The sources are tried in the order \<^verbatim>\<open>psutil\<close>, filesystem, empty reading, and the
  first reading wins. When \<open>get_psutil_battery\<close> yields a reading, the calls recorded are
  \<open>[Psutil]\<close> alone: \<open>get_sys_battery\<close> is not consulted. Otherwise both are consulted, in
  that order, and the result is the filesystem's reading or, without one, the empty
  reading; an exception that leaves \<open>get_sys_battery\<close> ends the acquisition.
\<close>

theorem source_fallback_chain:
  "acquire py_int w =
     (case fst (get_psutil_battery w) of
        Some r \<Rightarrow> (Inr r, w\<lparr>consulted := consulted w @ [Psutil]\<rparr>)
      | None \<Rightarrow>
          (case fst (get_sys_battery py_int w) of
             Inl e \<Rightarrow> (Inl e, w\<lparr>consulted := consulted w @ [Psutil, Sysfs]\<rparr>)
           | Inr (Some r) \<Rightarrow> (Inr r, w\<lparr>consulted := consulted w @ [Psutil, Sysfs]\<rparr>)
           | Inr None \<Rightarrow> (Inr empty_reading, w\<lparr>consulted := consulted w @ [Psutil, Sysfs]\<rparr>)))"
  by (rule acquire_eq)

theorem source_fallback_chain_witness:
  "acquire (\<lambda>s. if s = ascii ''87'' then Some 87 else None)
     \<lparr>psutil = Installed (Some \<lparr>b_percent = 40, b_secsleft = Some (- 1),
                                  b_power_plugged = Some False\<rparr>),
      power_supply = Listing [\<lparr>dev_name = ascii ''BAT0'', dev_capacity = Content (ascii ''87''),
                             dev_status = Content (ascii ''Full'')\<rparr>],
      consulted = []\<rparr>
   = (Inr \<lparr>info_percent = Some 40, info_status = Some (ascii ''Discharging''),
            info_secs_left = Some None\<rparr>,
      \<lparr>psutil = Installed (Some \<lparr>b_percent = 40, b_secsleft = Some (- 1),
                                  b_power_plugged = Some False\<rparr>),
       power_supply = Listing [\<lparr>dev_name = ascii ''BAT0'', dev_capacity = Content (ascii ''87''),
                              dev_status = Content (ascii ''Full'')\<rparr>],
       consulted = [Psutil]\<rparr>)
   \<and> acquire (\<lambda>s. if s = ascii ''87'' then Some 87 else None)
     \<lparr>psutil = Installed None,
      power_supply = Listing [\<lparr>dev_name = ascii ''AC'', dev_capacity = Absent, dev_status = Absent\<rparr>,
                           \<lparr>dev_name = ascii ''BAT0'', dev_capacity = Content (ascii ''87''),
                             dev_status = Content (ascii ''Full'')\<rparr>],
      consulted = []\<rparr>
   = (Inr \<lparr>info_percent = Some 87, info_status = Some (ascii ''Full''),
            info_secs_left = None\<rparr>,
      \<lparr>psutil = Installed None,
       power_supply = Listing [\<lparr>dev_name = ascii ''AC'', dev_capacity = Absent, dev_status = Absent\<rparr>,
                            \<lparr>dev_name = ascii ''BAT0'', dev_capacity = Content (ascii ''87''),
                              dev_status = Content (ascii ''Full'')\<rparr>],
       consulted = [Psutil, Sysfs]\<rparr>)
   \<and> acquire (\<lambda>s. None) \<lparr>psutil = NotInstalled, power_supply = NoDirectory, consulted = []\<rparr>
   = (Inr empty_reading,
      \<lparr>psutil = NotInstalled, power_supply = NoDirectory, consulted = [Psutil, Sysfs]\<rparr>)
   \<and> acquire (\<lambda>s. None)
     \<lparr>psutil = Installed (Some \<lparr>b_percent = 40, b_secsleft = Some (- 1),
                                  b_power_plugged = Some False\<rparr>),
      power_supply = Unlistable, consulted = []\<rparr>
   = (Inr \<lparr>info_percent = Some 40, info_status = Some (ascii ''Discharging''),
            info_secs_left = Some None\<rparr>,
      \<lparr>psutil = Installed (Some \<lparr>b_percent = 40, b_secsleft = Some (- 1),
                                  b_power_plugged = Some False\<rparr>),
       power_supply = Unlistable, consulted = [Psutil]\<rparr>)"
  using source_fallback_chain [of "\<lambda>s. if s = ascii ''87'' then Some 87 else None"
      "\<lparr>psutil = Installed (Some \<lparr>b_percent = 40, b_secsleft = Some (- 1),
                                  b_power_plugged = Some False\<rparr>),
      power_supply = Listing [\<lparr>dev_name = ascii ''BAT0'', dev_capacity = Content (ascii ''87''),
                             dev_status = Content (ascii ''Full'')\<rparr>],
      consulted = []\<rparr>"]
    source_fallback_chain [of "\<lambda>s. if s = ascii ''87'' then Some 87 else None"
      "\<lparr>psutil = Installed None,
      power_supply = Listing [\<lparr>dev_name = ascii ''AC'', dev_capacity = Absent, dev_status = Absent\<rparr>,
                           \<lparr>dev_name = ascii ''BAT0'', dev_capacity = Content (ascii ''87''),
                             dev_status = Content (ascii ''Full'')\<rparr>],
      consulted = []\<rparr>"]
    source_fallback_chain [of "\<lambda>s. None"
      "\<lparr>psutil = NotInstalled, power_supply = NoDirectory, consulted = []\<rparr>"]
    source_fallback_chain [of "\<lambda>s. None"
      "\<lparr>psutil = Installed (Some \<lparr>b_percent = 40, b_secsleft = Some (- 1),
                                  b_power_plugged = Some False\<rparr>),
      power_supply = Unlistable, consulted = []\<rparr>"]
  by (simp add: fst_get_psutil_battery fst_get_sys_battery psutil_reading_def read_device_def
      readf_def startswith_def lower_def lower_cp_def ascii_def ord_def py_round_def)

section \<open>The override merge and the defaults\<close>

lemma override_fields:
  "info_percent (override info level status secsleft) =
     (case level of None \<Rightarrow> info_percent info | Some l \<Rightarrow> Some l)"
  "info_status (override info level status secsleft) =
     (case status of None \<Rightarrow> info_status info | Some s \<Rightarrow> Some s)"
  "info_secs_left (override info level status secsleft) =
     (case secsleft of None \<Rightarrow> info_secs_left info | Some t \<Rightarrow> Some (Some t))"
  by (simp_all add: override_def split: option.splits)

text \<open>
  C4. Each simulated value that is supplied replaces the field of the base reading,
  whatever that held, and a field whose simulated value is not supplied keeps what the base
  reading had. With \<^verbatim>\<open>--level 75\<close> alone on a base reading of \<open>40\<close> percent the final percent
  is \<open>75\<close>, and the final status and seconds are those of the base reading, or the defaults.
\<close>

theorem override_merge:
  "info_percent (override info level status secsleft) =
     (case level of None \<Rightarrow> info_percent info | Some l \<Rightarrow> Some l)
   \<and> info_status (override info level status secsleft) =
     (case status of None \<Rightarrow> info_status info | Some s \<Rightarrow> Some s)
   \<and> info_secs_left (override info level status secsleft) =
     (case secsleft of None \<Rightarrow> info_secs_left info | Some t \<Rightarrow> Some (Some t))
   \<and> get_percent (override (info\<lparr>info_percent := Some 40\<rparr>) (Some 75) None None) = 75
   \<and> get_status (override (info\<lparr>info_percent := Some 40\<rparr>) (Some 75) None None) = get_status info
   \<and> get_secs (override (info\<lparr>info_percent := Some 40\<rparr>) (Some 75) None None) = get_secs info"
  by (simp add: override_fields get_percent_def get_status_def get_secs_def)

theorem override_merge_witness:
  "override \<lparr>info_percent = Some 40, info_status = Some (ascii ''Discharging''),
             info_secs_left = Some (Some 3600)\<rparr> (Some 75) None None
     = \<lparr>info_percent = Some 75, info_status = Some (ascii ''Discharging''),
        info_secs_left = Some (Some 3600)\<rparr>
   \<and> get_percent (override empty_reading (Some 75) None None) = 75
   \<and> get_status (override empty_reading (Some 75) None None) = ascii ''Unknown''
   \<and> get_secs (override empty_reading (Some 75) None None) = None"
  using override_merge [of "\<lparr>info_percent = Some 40, info_status = Some (ascii ''Discharging''),
             info_secs_left = Some (Some 3600)\<rparr>" "Some 75" None None]
    override_merge [of empty_reading "Some 75" None None]
  by (simp add: override_def get_percent_def get_status_def get_secs_def empty_reading_def)

section \<open>The command and its defaults\<close>

lemma format_time_ok:
  assumes "secs = None \<or> (\<exists>t. secs = Some t \<and> t < 86400 * 1000000000)"
  shows "\<exists>s. format_time secs status = Inr s"
proof (cases "case secs of None \<Rightarrow> True | Some n \<Rightarrow> n < 0")
  case True
  then show ?thesis by (simp add: format_time_def)
next
  case False
  with assms obtain t where t: "secs = Some t" "0 \<le> t" "t < 86400 * 1000000000"
    by (auto split: option.splits)
  then have "0 \<le> t div 86400" "t div 86400 \<le> 999999999" by linarith+
  with t False show ?thesis
    by (simp add: format_time_def timedelta_seconds_def)
qed

lemma render_battery_ok:
  assumes "\<bar>percent * 28\<bar> < 2 ^ 53"
    and "secs_left = None \<or> (\<exists>t. secs_left = Some t \<and> t < 86400 * 1000000000)"
  shows "\<exists>out. render_battery percent status secs_left = Inr out"
proof -
  from assms(1) have "\<bar>percent\<bar> < 10 ^ 15" by (simp add: abs_mult) 
  from length_perc_text_abs [OF this]
  have "2 \<le> length (perc_text percent)" "length (perc_text percent) \<le> 28" by simp_all
  from gauge_lines_ok [OF this] obtain lines where "gauge_lines percent = Inr lines" by blast
  moreover from format_time_ok [OF assms(2)]
  obtain s where "format_time secs_left (Some status) = Inr s" by blast
  ultimately show ?thesis by (simp add: render_battery_def)
qed

lemma render_battery_50_unknown:
  "render_battery 50 (ascii ''Unknown'') None =
     Inr \<lparr>combined =
            [center cap 30 @ ascii ''   Status : Unknown'',
             [0x256D] @ replicate 28 0x2500 @ [0x256E] @ ascii ''   Charge : 50%'',
             [0x2502] @ replicate 14 0x2588 @ replicate 14 32 @ [0x2502]
               @ ascii ''   Time   : Unknown'']
            @ replicate 3 ([0x2502] @ replicate 14 0x2588 @ replicate 14 32 @ [0x2502])
            @ [[0x2502] @ replicate 12 0x2588 @ ascii ''50%'' @ replicate 13 32 @ [0x2502]]
            @ replicate 4 ([0x2502] @ replicate 14 0x2588 @ replicate 14 32 @ [0x2502])
            @ [[0x2570] @ replicate 28 0x2500 @ [0x256F]],
          color = ascii ''yellow''\<rparr>"
proof -
  have f: "format_time None (Some (ascii ''Unknown'')) = Inr (ascii ''Unknown'')"
    by (simp add: format_time_def startswith_def lower_def lower_cp_def ascii_def ord_def)
  have i: "info_lines 50 (ascii ''Unknown'') (ascii ''Unknown'') =
      [ascii ''Status : Unknown'', ascii ''Charge : 50%'', ascii ''Time   : Unknown'']"
    by (simp add: info_lines_def str_int_def str_nat_two ascii_def ord_def)
  have c: "color_for_percent 50 = ascii ''yellow''"
    by (simp add: color_for_percent_def)
  have e: "enumerate 0 [l0, l1, l2, l3, l4, l5, l6, l7, l8, l9, l10, l11 :: pystr] =
      [(0, l0), (1, l1), (2, l2), (3, l3), (4, l4), (5, l5), (6, l6), (7, l7), (8, l8),
       (9, l9), (10, l10), (11, l11)]" for l0 l1 l2 l3 l4 l5 l6 l7 l8 l9 l10 l11
    by (simp add: enumerate_eq_zip upt_rec_numeral)
  have k: "combine [l0, l1, l2, l3, l4, l5, l6, l7, l8, l9, l10, l11] [a, b, c] =
      [l0 @ ascii ''   '' @ a, l1 @ ascii ''   '' @ b, l2 @ ascii ''   '' @ c,
       l3, l4, l5, l6, l7, l8, l9, l10, l11]" for l0 l1 l2 l3 l4 l5 l6 l7 l8 l9 l10 l11 a b c
    unfolding combine_def e by simp
  show ?thesis
    unfolding render_battery_def gauge_lines_50 f c
    by (simp add: replicate_numeral i k) (simp add: ascii_def)
qed

text \<open>
  When the acquisition returns a reading, the renderer is called with the merged reading,
  every field that is still absent filled with its default: \<open>50\<close> percent, the status
  \<^verbatim>\<open>Unknown\<close>, no seconds. The renderer then returns its block whenever the percentage is
  one whose float quotient is exact and the seconds are absent or below the limit of
  \<^verbatim>\<open>timedelta\<close>, which the defaults are.
\<close>

lemma show_cmd_defaults:
  assumes "fst (acquire py_int w) = Inr base"
  shows "(let info = override base level status secsleft
    in fst (show_cmd py_int w level status secsleft) =
         render_battery (get_percent info) (get_status info) (get_secs info)
     \<and> get_percent info =
         (case level of Some l \<Rightarrow> l
          | None \<Rightarrow> (case info_percent base of Some p \<Rightarrow> p | None \<Rightarrow> 50))
     \<and> get_status info =
         (case status of Some s \<Rightarrow> s
          | None \<Rightarrow> (case info_status base of Some s \<Rightarrow> s | None \<Rightarrow> ascii ''Unknown''))
     \<and> get_secs info =
         (case secsleft of Some t \<Rightarrow> Some t
          | None \<Rightarrow> (case info_secs_left base of Some t \<Rightarrow> t | None \<Rightarrow> None))
     \<and> (\<bar>get_percent info * 28\<bar> < 2 ^ 53
           \<and> (get_secs info = None \<or> (\<exists>t. get_secs info = Some t \<and> t < 86400 * 1000000000))
         \<longrightarrow> (\<exists>out. fst (show_cmd py_int w level status secsleft) = Inr out)))"
proof -
  let ?info = "override base level status secsleft"
  have 1: "fst (show_cmd py_int w level status secsleft) =
      render_battery (get_percent ?info) (get_status ?info) (get_secs ?info)"
    using assms by (simp add: show_cmd_def split_beta Let_def)
  have 2: "\<bar>get_percent ?info * 28\<bar> < 2 ^ 53
      \<and> (get_secs ?info = None \<or> (\<exists>t. get_secs ?info = Some t \<and> t < 86400 * 1000000000))
      \<longrightarrow> (\<exists>out. fst (show_cmd py_int w level status secsleft) = Inr out)"
    unfolding 1 using render_battery_ok by blast
  have 3: "get_percent ?info =
      (case level of Some l \<Rightarrow> l
       | None \<Rightarrow> (case info_percent base of Some p \<Rightarrow> p | None \<Rightarrow> 50))"
    by (simp add: get_percent_def override_fields split: option.splits)
  have 4: "get_status ?info =
      (case status of Some s \<Rightarrow> s
       | None \<Rightarrow> (case info_status base of Some s \<Rightarrow> s | None \<Rightarrow> ascii ''Unknown''))"
    by (simp add: get_status_def override_fields split: option.splits)
  have 5: "get_secs ?info =
      (case secsleft of Some t \<Rightarrow> Some t
       | None \<Rightarrow> (case info_secs_left base of Some t \<Rightarrow> t | None \<Rightarrow> None))"
    by (simp add: get_secs_def override_fields split: option.splits)
  from 1 2 3 4 5 show ?thesis
    unfolding Let_def by (intro conjI)
qed

text \<open>An exception that leaves the acquisition ends the command, whatever is simulated.\<close>

lemma show_cmd_raises:
  "fst (acquire py_int w) = Inl e \<Longrightarrow> fst (show_cmd py_int w level status secsleft) = Inl e"
  by (simp add: show_cmd_def split_beta)

text \<open>
  C9. Missing battery data is to end in the visible defaults, never in a failure. The code
  does so where \<^verbatim>\<open>psutil\<close> is not installed and the directory of the power supplies is
  missing: the renderer gets \<open>50\<close> percent, the status \<^verbatim>\<open>Unknown\<close> and no seconds, and
  returns its block. Where the directory is there and cannot be listed, \<^verbatim>\<open>os.listdir\<close>
  raises outside the \<^verbatim>\<open>try\<close> of \<open>get_sys_battery\<close>, and the command ends with that
  exception, without simulated values and with all three of them.
\<close>

theorem show_unlistable_directory:
  "show_cmd (\<lambda>s. None) \<lparr>psutil = NotInstalled, power_supply = Unlistable, consulted = []\<rparr>
     None None None
     = (Inl OSError,
        \<lparr>psutil = NotInstalled, power_supply = Unlistable, consulted = [Psutil, Sysfs]\<rparr>)
   \<and> fst (show_cmd (\<lambda>s. None)
          \<lparr>psutil = NotInstalled, power_supply = Unlistable, consulted = []\<rparr>
          (Some 75) (Some (ascii ''Charging'')) (Some 120))
     = Inl OSError
   \<and> fst (show_cmd (\<lambda>s. None)
          \<lparr>psutil = NotInstalled, power_supply = NoDirectory, consulted = []\<rparr> None None None)
     = render_battery 50 (ascii ''Unknown'') None
   \<and> fst (show_cmd (\<lambda>s. if s = ascii ''50'' then Some 50 else None)
          \<lparr>psutil = Installed None,
           power_supply = Listing [\<lparr>dev_name = ascii ''BAT0'', dev_capacity = Content (ascii ''50''),
                                     dev_status = Unreadable\<rparr>,
                                   \<lparr>dev_name = ascii ''BAT1'', dev_capacity = Content (ascii ''50''),
                                     dev_status = Absent\<rparr>],
           consulted = []\<rparr> None None None)
     = render_battery 50 (ascii ''Unknown'') None
   \<and> render_battery 50 (ascii ''Unknown'') None =
     Inr \<lparr>combined =
            [center cap 30 @ ascii ''   Status : Unknown'',
             [0x256D] @ replicate 28 0x2500 @ [0x256E] @ ascii ''   Charge : 50%'',
             [0x2502] @ replicate 14 0x2588 @ replicate 14 32 @ [0x2502]
               @ ascii ''   Time   : Unknown'']
            @ replicate 3 ([0x2502] @ replicate 14 0x2588 @ replicate 14 32 @ [0x2502])
            @ [[0x2502] @ replicate 12 0x2588 @ ascii ''50%'' @ replicate 13 32 @ [0x2502]]
            @ replicate 4 ([0x2502] @ replicate 14 0x2588 @ replicate 14 32 @ [0x2502])
            @ [[0x2570] @ replicate 28 0x2500 @ [0x256F]],
          color = ascii ''yellow''\<rparr>"
proof -
  let ?wu = "\<lparr>psutil = NotInstalled, power_supply = Unlistable, consulted = []\<rparr>"
  let ?w0 = "\<lparr>psutil = NotInstalled, power_supply = NoDirectory, consulted = []\<rparr>"
  let ?w1 = "\<lparr>psutil = Installed None,
           power_supply = Listing [\<lparr>dev_name = ascii ''BAT0'', dev_capacity = Content (ascii ''50''),
                                     dev_status = Unreadable\<rparr>,
                                   \<lparr>dev_name = ascii ''BAT1'', dev_capacity = Content (ascii ''50''),
                                     dev_status = Absent\<rparr>],
           consulted = []\<rparr>"
  let ?p = "\<lambda>s. if s = ascii ''50'' then Some (50::int) else None"
  have au: "acquire (\<lambda>s. None) ?wu =
      (Inl OSError,
       \<lparr>psutil = NotInstalled, power_supply = Unlistable, consulted = [Psutil, Sysfs]\<rparr>)"
    by (simp add: acquire_eq fst_get_psutil_battery fst_get_sys_battery)
  have a0: "fst (acquire (\<lambda>s. None) ?w0) = Inr empty_reading"
    by (simp add: acquire_eq fst_get_psutil_battery fst_get_sys_battery)
  have a1: "fst (acquire ?p ?w1) =
      Inr \<lparr>info_percent = Some 50, info_status = Some (ascii ''Unknown''),
           info_secs_left = None\<rparr>"
    by (simp add: acquire_eq fst_get_psutil_battery fst_get_sys_battery read_device_def readf_def
        startswith_def lower_def lower_cp_def ascii_def ord_def)
  have c1: "show_cmd (\<lambda>s. None) ?wu None None None =
      (Inl OSError,
       \<lparr>psutil = NotInstalled, power_supply = Unlistable, consulted = [Psutil, Sysfs]\<rparr>)"
    by (simp add: show_cmd_def au)
  have c2: "fst (show_cmd (\<lambda>s. None) ?wu (Some 75) (Some (ascii ''Charging'')) (Some 120)) =
      Inl OSError"
    by (simp add: show_cmd_def au)
  from show_cmd_defaults [OF a0, of None None None]
  have c3: "fst (show_cmd (\<lambda>s. None) ?w0 None None None) =
      render_battery 50 (ascii ''Unknown'') None"
    by (simp add: Let_def override_def get_percent_def get_status_def get_secs_def
        empty_reading_def)
  from show_cmd_defaults [OF a1, of None None None]
  have c4: "fst (show_cmd ?p ?w1 None None None) = render_battery 50 (ascii ''Unknown'') None"
    by (simp add: Let_def override_def get_percent_def get_status_def get_secs_def)
  from c1 c2 c3 c4 render_battery_50_unknown show ?thesis
    by (intro conjI)
qed

end
